theory Spec2Isabelle
  imports Main "HOL-Library.Sublist" "HOL-Library.Multiset"
begin

section \<open>JavaScript values and built-ins used by the generator classes\<close>

text \<open>
  Strings are character lists. An exception thrown by the source is a value of type
  \<open>error\<close>: \<open>Error msg\<close> for \<^verbatim>\<open>throw new Error(msg)\<close>, \<open>TypeError\<close> for the
  property access on \<^verbatim>\<open>undefined\<close> that \<^verbatim>\<open>arr[0].type\<close> performs on an empty array.
\<close>

datatype error = Error string | TypeError

text \<open>\<^verbatim>\<open>s.includes(t)\<close>: \<open>t\<close> occurs in \<open>s\<close> as a contiguous substring.\<close>

fun String_includes :: "string \<Rightarrow> string \<Rightarrow> bool" where
  "String_includes [] t = (t = [])"
| "String_includes (c # cs) t = (prefix t (c # cs) \<or> String_includes cs t)"

text \<open>
  \<^verbatim>\<open>s.replace(pat, rep)\<close> with a string pattern: only the first (leftmost) occurrence of
  \<open>pat\<close> is replaced; the empty pattern matches at position 0.
\<close>

fun String_replace :: "string \<Rightarrow> string \<Rightarrow> string \<Rightarrow> string" where
  "String_replace [] pat rep = (if pat = [] then rep else [])"
| "String_replace (c # cs) pat rep =
     (if prefix pat (c # cs) then rep @ drop (length pat) (c # cs)
      else c # String_replace cs pat rep)"

text \<open>\<^verbatim>\<open>s.split(', ')\<close>: cut at every occurrence of comma-space, left to right.\<close>

fun split_acc :: "string \<Rightarrow> string \<Rightarrow> string list" where
  "split_acc cur [] = [cur]"
| "split_acc cur [c] = [cur @ [c]]"
| "split_acc cur (c # d # cs) =
     (if c = CHR '','' \<and> d = CHR '' '' then cur # split_acc [] cs
      else split_acc (cur @ [c]) (d # cs))"

definition String_split :: "string \<Rightarrow> string list" where
  "String_split s = split_acc [] s"

text \<open>\<^verbatim>\<open>arr.join(sep)\<close>.\<close>

fun Array_join :: "string list \<Rightarrow> string \<Rightarrow> string" where
  "Array_join [] sep = []"
| "Array_join [x] sep = x"
| "Array_join (x # y # ys) sep = x @ sep @ Array_join (y # ys) sep"

text \<open>
  A JavaScript \<^verbatim>\<open>Set<string>\<close> iterates in insertion order, and \<^verbatim>\<open>add\<close> of a value that is
  already a member (by string equality) changes nothing. It is modelled by the list of its
  members in insertion order; \<^verbatim>\<open>new Set(iterable)\<close> adds the elements one after the other.
\<close>

definition Set_add :: "string list \<Rightarrow> string \<Rightarrow> string list" where
  "Set_add s x = (if x \<in> set s then s else s @ [x])"

definition new_Set :: "string list \<Rightarrow> string list" where
  "new_Set xs = foldl Set_add [] xs"

text \<open>Rendering of an optional string inside a template literal or as a property key.\<close>

definition render :: "string option \<Rightarrow> string" where
  "render v = (case v of None \<Rightarrow> ''undefined'' | Some s \<Rightarrow> s)"

section \<open>Regular expressions of the directive parser\<close>

text \<open>The class \<^verbatim>\<open>\w\<close> and the class \<^verbatim>\<open>[\w "'\{\}\/,;.*]\<close> of the statement pattern.\<close>

definition is_word_char :: "char \<Rightarrow> bool" where
  "is_word_char c =
     (c \<in> set ''abcdefghijklmnopqrstuvwxyzABCDEFGHIJKLMNOPQRSTUVWXYZ0123456789_'')"

definition is_statement_char :: "char \<Rightarrow> bool" where
  "is_statement_char c = (is_word_char c \<or> c \<in> set '' \"'{}/,;.*'')"

record regexp_match =
  whole :: string
  type_group :: "string option"
  imports_group :: "string option"

text \<open>
  Modelled from the spec: the constant \<^verbatim>\<open>IMPORT_STATEMENT_REGEX\<close> of \<^verbatim>\<open>../constants\<close>, which
  is not part of the sources at hand. The spec describes the directive as a marker with a
  \<^emph>\<open>type\<close> tag whose payload is a list of double-quoted import statements, written
  \<^verbatim>\<open>@zod.import(["import { x } from 'y'"])\<close>. The marker is taken to be the text \<^verbatim>\<open>@zod.\<close>,
  a non-empty run of word characters (group \<^verbatim>\<open>type\<close>), the text \<^verbatim>\<open>([\<close>, a non-empty run of
  statement characters (group \<^verbatim>\<open>imports\<close>) and the text \<^verbatim>\<open>])\<close>. Neither \<^verbatim>\<open>(\<close> nor \<^verbatim>\<open>]\<close>
  belongs to the class before it, so the greedy runs are the maximal ones and no
  backtracking takes place.
\<close>

definition IMPORT_STATEMENT_REGEX_here :: "string \<Rightarrow> regexp_match option" where
  "IMPORT_STATEMENT_REGEX_here s =
     (if prefix ''@zod.'' s then
        (let r0 = drop 5 s;
             ty = takeWhile is_word_char r0;
             r1 = dropWhile is_word_char r0
         in if ty \<noteq> [] \<and> prefix ''(['' r1 then
              (let r2 = drop 2 r1;
                   pl = takeWhile is_statement_char r2;
                   r3 = dropWhile is_statement_char r2
               in if pl \<noteq> [] \<and> prefix ''])'' r3 then
                    Some \<lparr>whole = ''@zod.'' @ ty @ ''(['' @ pl @ ''])'',
                          type_group = Some ty, imports_group = Some pl\<rparr>
                  else None)
            else None)
      else None)"

text \<open>\<^verbatim>\<open>doc.match(IMPORT_STATEMENT_REGEX)\<close>, a pattern without the global flag: the leftmost match.\<close>

fun match_IMPORT_STATEMENT_REGEX :: "string \<Rightarrow> regexp_match option" where
  "match_IMPORT_STATEMENT_REGEX [] = None"
| "match_IMPORT_STATEMENT_REGEX (c # cs) =
     (case IMPORT_STATEMENT_REGEX_here (c # cs) of
        Some m \<Rightarrow> Some m
      | None \<Rightarrow> match_IMPORT_STATEMENT_REGEX cs)"

text \<open>
  The statement pattern \<^verbatim>\<open>/"(?<statement>[\w "'\{\}\/,;.*]+)"/\<close> of the source. The class
  contains the double quote, so the greedy run is cut back to its last double quote, and the
  group must keep at least one character.
\<close>

definition statement_here :: "string \<Rightarrow> string option" where
  "statement_here s =
     (case s of
        [] \<Rightarrow> None
      | c # cs \<Rightarrow>
          if c = CHR 0x22 then
            (case dropWhile (\<lambda>x. x \<noteq> CHR 0x22) (rev (takeWhile is_statement_char cs)) of
               [] \<Rightarrow> None
             | q # body \<Rightarrow> if body = [] then None else Some (rev body))
          else None)"

fun match_statement :: "string \<Rightarrow> string option" where
  "match_statement [] = None"
| "match_statement (c # cs) =
     (case statement_here (c # cs) of
        Some g \<Rightarrow> Some g
      | None \<Rightarrow> match_statement cs)"

text \<open>\<^verbatim>\<open>.replace(/["']/g, "'")\<close>.\<close>

definition normalize_quotes :: "string \<Rightarrow> string" where
  "normalize_quotes s = map (\<lambda>c. if c = CHR 0x22 \<or> c = CHR 0x27 then CHR 0x27 else c) s"

section \<open>ExtendedDMMFModel\<close>

record GeneratorConfig =
  prismaClientPath :: string
  inputTypePath :: string
  createOptionalDefaultValuesTypes :: bool

text \<open>
  The attributes of an \<^verbatim>\<open>ExtendedDMMFField\<close> that the model and the schema field read. The
  class itself is outside the sources at hand: its constructor is a parameter \<open>newField\<close>
  of the model constructor, and the results of its methods \<^verbatim>\<open>isOmitField()\<close> and
  \<^verbatim>\<open>isOptionalDefaultField()\<close> are attributes here.
\<close>

record ExtendedDMMFField =
  f_name :: string
  f_kind :: string
  f_type :: string
  f_isRequired :: bool
  f_isJsonType :: bool
  f_isDecimalType :: bool
  f_isOmitField :: bool
  f_isOptionalDefaultField :: bool

text \<open>The raw \<^verbatim>\<open>DMMF.Model\<close>; \<open>'f\<close> is the type of a raw field descriptor.\<close>

record 'f DMMF_Model =
  dm_name :: string
  dm_dbName :: "string option"
  dm_fields :: "'f list"
  dm_uniqueFields :: "string list list"
  dm_documentation :: "string option"

record ExtendedDMMFModel =
  m_generatorConfig :: GeneratorConfig
  m_name :: string
  m_dbName :: "string option"
  m_fields :: "ExtendedDMMFField list"
  m_uniqueFields :: "string list list"
  m_documentation :: "string option"
  m_scalarFields :: "ExtendedDMMFField list"
  m_relationFields :: "ExtendedDMMFField list"
  m_enumFields :: "ExtendedDMMFField list"
  m_hasRelationFields :: bool
  m_hasOmitFields :: bool
  m_imports :: "string list"
  m_errorLocation :: string
  m_clearedDocumentation :: "string option"

definition setErrorLocation :: "string \<Rightarrow> string" where
  "setErrorLocation name = ''[Error Location]: Model: '' @ [CHR 0x27] @ name @ [CHR 0x27] @ ''.''"

definition getExtendedFields ::
  "(GeneratorConfig \<Rightarrow> 'f \<Rightarrow> string \<Rightarrow> ExtendedDMMFField) \<Rightarrow> GeneratorConfig \<Rightarrow>
   'f DMMF_Model \<Rightarrow> ExtendedDMMFField list" where
  "getExtendedFields newField cfg model =
     map (\<lambda>field. newField cfg field (dm_name model)) (dm_fields model)"

definition setScalarFields :: "ExtendedDMMFField list \<Rightarrow> ExtendedDMMFField list" where
  "setScalarFields flds = filter (\<lambda>field. f_kind field = ''scalar'') flds"

definition setRelationFields :: "ExtendedDMMFField list \<Rightarrow> ExtendedDMMFField list" where
  "setRelationFields flds = filter (\<lambda>field. f_kind field = ''object'') flds"

definition setEnumfields :: "ExtendedDMMFField list \<Rightarrow> ExtendedDMMFField list" where
  "setEnumfields flds = filter (\<lambda>field. f_kind field = ''enum'') flds"

definition setHasRelationFields :: "ExtendedDMMFField list \<Rightarrow> bool" where
  "setHasRelationFields relationFields = (length relationFields > 0)"

definition setHasOmitFields :: "ExtendedDMMFField list \<Rightarrow> bool" where
  "setHasOmitFields flds = list_ex (\<lambda>field. f_isOmitField field) flds"

record zodDirectives =
  statements :: "string list"
  zd_clearedDocumentation :: string

text \<open>
  \<^verbatim>\<open>_extractZodDirectives\<close>, reading \<^verbatim>\<open>this.documentation\<close> and \<^verbatim>\<open>this.errorLocation\<close>.
  \<open>Inr None\<close> is the plain \<^verbatim>\<open>return\<close> (no directive), \<open>Inl\<close> the thrown error. A statement
  whose pattern does not match maps to \<^verbatim>\<open>undefined\<close> and is filtered out, as is an empty one.
\<close>

definition extractZodDirectives ::
  "string option \<Rightarrow> string \<Rightarrow> error + zodDirectives option" where
  "extractZodDirectives documentation errorLocation =
     (case documentation of
        None \<Rightarrow> Inr None
      | Some doc \<Rightarrow>
          if doc = [] then Inr None
          else
            (case match_IMPORT_STATEMENT_REGEX doc of
               None \<Rightarrow> Inr None
             | Some importStatements \<Rightarrow>
                 (let type = type_group importStatements in
                  if type \<noteq> Some ''import'' then
                    Inl (Error (''[@zod generator error]: '' @ [CHR 0x27] @ render type @ [CHR 0x27]
                                @ '' is not a valid validator key. '' @ errorLocation))
                  else
                    (case map_option String_split (imports_group importStatements) of
                       None \<Rightarrow> Inr None
                     | Some importsList \<Rightarrow>
                         Inr (Some
                           \<lparr>statements =
                              concat (map (\<lambda>statement.
                                  case map_option normalize_quotes (match_statement statement) of
                                    None \<Rightarrow> []
                                  | Some st \<Rightarrow> if st = [] then [] else [st])
                                importsList),
                            zd_clearedDocumentation =
                              String_replace doc (whole importStatements) []\<rparr>)))))"

text \<open>\<^verbatim>\<open>_getAutomaticImports\<close>: the array \<^verbatim>\<open>statements\<close> after each \<^verbatim>\<open>push\<close>.\<close>

definition enumSchemaImport :: "ExtendedDMMFField \<Rightarrow> string" where
  "enumSchemaImport field =
     ''import { '' @ f_type field @ ''Schema } from '' @ [CHR 0x27] @ ''../enums/'' @ f_type field
       @ ''Schema'' @ [CHR 0x27]"

definition getAutomaticImports ::
  "GeneratorConfig \<Rightarrow> ExtendedDMMFField list \<Rightarrow> ExtendedDMMFField list \<Rightarrow> string list" where
  "getAutomaticImports cfg flds enumFields =
     (let s0 = [];
          s1 = (if list_ex (\<lambda>field. f_isJsonType field \<and> \<not> f_isRequired field) flds
                then s0 @ [''import { NullableJsonValue } from \"../helpers''] else s0);
          s2 = (if list_ex (\<lambda>field. f_isJsonType field \<and> f_isRequired field) flds
                then s1 @ [''import { InputJsonValue } from \"../helpers''] else s1);
          s3 = (if list_ex (\<lambda>field. f_isDecimalType field) flds
                then s2 @ [''import * as PrismaClient from '' @ [CHR 0x27] @ prismaClientPath cfg
                            @ [CHR 0x27]]
                else s2)
      in foldl (\<lambda>s field. s @ [enumSchemaImport field]) s3 enumFields)"

record documentationContent =
  dc_imports :: "string list"
  dc_documentation :: "string option"

definition getDocumentationContent ::
  "GeneratorConfig \<Rightarrow> ExtendedDMMFField list \<Rightarrow> ExtendedDMMFField list \<Rightarrow> string option \<Rightarrow>
   string \<Rightarrow> error + documentationContent" where
  "getDocumentationContent cfg flds enumFields documentation errorLocation =
     (case extractZodDirectives documentation errorLocation of
        Inl e \<Rightarrow> Inl e
      | Inr zodDirectives \<Rightarrow>
          (let automaticImports = getAutomaticImports cfg flds enumFields in
           case zodDirectives of
             None \<Rightarrow> Inr \<lparr>dc_imports = new_Set automaticImports, dc_documentation = None\<rparr>
           | Some zd \<Rightarrow>
               Inr \<lparr>dc_imports = new_Set (statements zd @ automaticImports),
                    dc_documentation = Some (zd_clearedDocumentation zd)\<rparr>))"

text \<open>The constructor: \<open>Inl\<close> when it throws, and then no model exists.\<close>

definition ExtendedDMMFModel_new ::
  "(GeneratorConfig \<Rightarrow> 'f \<Rightarrow> string \<Rightarrow> ExtendedDMMFField) \<Rightarrow> GeneratorConfig \<Rightarrow>
   'f DMMF_Model \<Rightarrow> error + ExtendedDMMFModel" where
  "ExtendedDMMFModel_new newField cfg model =
     (let name = dm_name model;
          flds = getExtendedFields newField cfg model;
          scalarFields = setScalarFields flds;
          relationFields = setRelationFields flds;
          enumFields = setEnumfields flds;
          hasRelationFields = setHasRelationFields relationFields;
          hasOmitFields = setHasOmitFields flds;
          errorLocation = setErrorLocation name
      in case getDocumentationContent cfg flds enumFields (dm_documentation model)
                errorLocation of
           Inl e \<Rightarrow> Inl e
         | Inr docsContent \<Rightarrow>
             Inr \<lparr>m_generatorConfig = cfg, m_name = name, m_dbName = dm_dbName model,
                  m_fields = flds, m_uniqueFields = dm_uniqueFields model,
                  m_documentation = dm_documentation model, m_scalarFields = scalarFields,
                  m_relationFields = relationFields, m_enumFields = enumFields,
                  m_hasRelationFields = hasRelationFields, m_hasOmitFields = hasOmitFields,
                  m_imports = dc_imports docsContent, m_errorLocation = errorLocation,
                  m_clearedDocumentation = dc_documentation docsContent\<rparr>)"

definition writeOptionalDefaultValuesTypes :: "ExtendedDMMFModel \<Rightarrow> bool" where
  "writeOptionalDefaultValuesTypes m =
     (list_ex (\<lambda>field. f_isOptionalDefaultField field) (m_fields m)
      \<and> createOptionalDefaultValuesTypes (m_generatorConfig m))"

section \<open>ExtendedDMMFSchemaField\<close>

text \<open>
  The constants \<^verbatim>\<open>PRISMA_ACTION_ARRAY\<close> and \<^verbatim>\<open>PRISMA_ACTION_ARG_MAP\<close> of
  \<^verbatim>\<open>../constants/objectMaps\<close> are parameters of the functions that read them: \<open>actions\<close> is
  the array of verbs, and \<open>argMap key\<close> is the \<^verbatim>\<open>formattedNames.pascalCase\<close> label of the
  entry registered under \<open>key\<close>, or \<open>None\<close> when the object has no such property.
\<close>

record InputType =
  it_type :: string
  it_isList :: bool

text \<open>The raw \<^verbatim>\<open>DMMF.SchemaArg\<close>.\<close>

record DMMF_SchemaArg =
  da_name :: string
  da_isNullable :: bool
  da_isRequired :: bool
  da_inputTypes :: "InputType list"

text \<open>
  The attributes of an \<^verbatim>\<open>ExtendedDMMFSchemaArg\<close> that the schema field reads. The class is
  outside the sources at hand: its constructor is a parameter \<open>newArg\<close>, and the result of
  its method \<^verbatim>\<open>rewriteArgWithNewType()\<close> is an attribute here.
\<close>

record ExtendedDMMFSchemaArg =
  a_name :: string
  a_isRequired :: bool
  a_inputTypes :: "InputType list"
  a_hasMultipleTypes :: bool
  a_rewriteArgWithNewType :: bool

record OutputType =
  ot_type :: string
  ot_isList :: bool
  ot_location :: string

text \<open>The raw \<^verbatim>\<open>DMMF.SchemaField\<close>.\<close>

record DMMF_SchemaField =
  df_name :: string
  df_isNullable :: bool
  df_outputType :: OutputType
  df_args :: "DMMF_SchemaArg list"

record ExtendedDMMFDatamodel =
  models :: "ExtendedDMMFModel list"

record ExtendedDMMFSchemaField =
  sf_generatorConfig :: GeneratorConfig
  sf_name :: string
  sf_isNullable :: bool
  sf_outputType :: OutputType
  sf_args :: "ExtendedDMMFSchemaArg list"
  sf_prismaAction :: "string option"
  sf_argName :: "string option"
  sf_modelType :: string
  sf_linkedModel :: "ExtendedDMMFModel option"
  sf_hasOmitFields :: bool
  sf_argTypeImports :: "string list"

text \<open>\<^verbatim>\<open>_setMatchedPrismaAction\<close>: \<^verbatim>\<open>find\<close> returns \<^verbatim>\<open>undefined\<close> (\<open>None\<close>) when no verb occurs.\<close>

definition setMatchedPrismaAction :: "string list \<Rightarrow> string \<Rightarrow> string option" where
  "setMatchedPrismaAction actions name = find (\<lambda>elem. String_includes name elem) actions"

text \<open>\<^verbatim>\<open>_setModelType\<close>: an absent verb is converted to the pattern text \<^verbatim>\<open>undefined\<close>.\<close>

definition setModelType :: "string \<Rightarrow> string option \<Rightarrow> string" where
  "setModelType name prismaAction =
     String_replace (String_replace name (render prismaAction) []) ''OrThrow'' []"

definition setArgName ::
  "(string \<Rightarrow> string option) \<Rightarrow> string \<Rightarrow> string option \<Rightarrow> string \<Rightarrow> string option" where
  "setArgName argMap name prismaAction modelType =
     (let argName = argMap (render prismaAction) in
      if String_includes name ''OrThrow'' then
        Some (modelType @ render argName @ ''OrThrowArgs'')
      else
        (case argName of
           None \<Rightarrow> None
         | Some pascalCase \<Rightarrow> Some (modelType @ pascalCase @ ''Args'')))"

definition setLinkedModel :: "ExtendedDMMFDatamodel \<Rightarrow> string \<Rightarrow> ExtendedDMMFModel option" where
  "setLinkedModel datamodel modelType =
     find (\<lambda>model. String_includes modelType (m_name model)) (models datamodel)"

definition setArgs ::
  "(GeneratorConfig \<Rightarrow> DMMF_SchemaArg \<Rightarrow> ExtendedDMMFField option \<Rightarrow> ExtendedDMMFSchemaArg) \<Rightarrow>
   GeneratorConfig \<Rightarrow> ExtendedDMMFModel option \<Rightarrow> DMMF_SchemaArg list \<Rightarrow>
   ExtendedDMMFSchemaArg list" where
  "setArgs newArg cfg linkedModel args =
     map (\<lambda>arg.
        let linkedField =
              (case linkedModel of
                 None \<Rightarrow> None
               | Some lm \<Rightarrow> find (\<lambda>field. f_name field = da_name arg) (m_fields lm))
        in newArg cfg arg linkedField) args"

text \<open>\<^verbatim>\<open>/create|upsert|update|delete/.test(name)\<close> and its siblings.\<close>

definition test_write :: "string \<Rightarrow> bool" where
  "test_write s =
     (String_includes s ''create'' \<or> String_includes s ''upsert''
      \<or> String_includes s ''update'' \<or> String_includes s ''delete'')"

definition test_write_data :: "string \<Rightarrow> bool" where
  "test_write_data s =
     (String_includes s ''create'' \<or> String_includes s ''update''
      \<or> String_includes s ''upsert'' \<or> String_includes s ''delete''
      \<or> String_includes s ''data'')"

definition includeInSelectAndIncludeArgs :: "string \<Rightarrow> bool" where
  "includeInSelectAndIncludeArgs name =
     (\<not> (String_includes name ''createMany'' \<or> String_includes name ''updateMany''
         \<or> String_includes name ''deleteMany''))"

definition sf_setHasOmitFields :: "string \<Rightarrow> ExtendedDMMFModel option \<Rightarrow> bool" where
  "sf_setHasOmitFields name linkedModel =
     (let writeOmit = test_write name in
      if writeOmit then (case linkedModel of None \<Rightarrow> False | Some lm \<Rightarrow> m_hasOmitFields lm)
      else False)"

definition schemaImport :: "GeneratorConfig \<Rightarrow> string \<Rightarrow> string" where
  "schemaImport cfg ty =
     ''import { '' @ ty @ ''Schema } from '' @ [CHR 0x27] @ ''../'' @ inputTypePath cfg @ ''/'' @ ty
       @ ''Schema'' @ [CHR 0x27]"

definition includeSchemaImport :: "GeneratorConfig \<Rightarrow> string \<Rightarrow> string" where
  "includeSchemaImport cfg modelType =
     ''import { '' @ modelType @ ''IncludeSchema } from '' @ [CHR 0x27] @ ''../'' @ inputTypePath cfg
       @ ''/'' @ modelType @ ''IncludeSchema'' @ [CHR 0x27]"

text \<open>
  The body of \<^verbatim>\<open>this.args.forEach\<close> in \<^verbatim>\<open>_setArgTypeImports\<close>: the array \<^verbatim>\<open>imports\<close> after
  the pushes for one arg. \<^verbatim>\<open>arg.inputTypes[0].type\<close> throws when the array is empty.
\<close>

definition pushArgImports ::
  "GeneratorConfig \<Rightarrow> string list \<Rightarrow> ExtendedDMMFSchemaArg \<Rightarrow> error + string list" where
  "pushArgImports cfg imports arg =
     (if a_hasMultipleTypes arg then
        Inr (foldl (\<lambda>imps inputType. imps @ [schemaImport cfg (it_type inputType)]) imports
               (a_inputTypes arg))
      else
        (case a_inputTypes arg of
           [] \<Rightarrow> Inl TypeError
         | inputType0 # _ \<Rightarrow> Inr (imports @ [schemaImport cfg (it_type inputType0)])))"

fun forEachArgImports ::
  "GeneratorConfig \<Rightarrow> string list \<Rightarrow> ExtendedDMMFSchemaArg list \<Rightarrow> error + string list" where
  "forEachArgImports cfg imports [] = Inr imports"
| "forEachArgImports cfg imports (arg # args) =
     (case pushArgImports cfg imports arg of
        Inl e \<Rightarrow> Inl e
      | Inr imports' \<Rightarrow> forEachArgImports cfg imports' args)"

definition setArgTypeImports ::
  "GeneratorConfig \<Rightarrow> string \<Rightarrow> string \<Rightarrow> ExtendedDMMFModel option \<Rightarrow>
   ExtendedDMMFSchemaArg list \<Rightarrow> error + string list" where
  "setArgTypeImports cfg name modelType linkedModel args =
     (let imports0 =
            (if includeInSelectAndIncludeArgs name
                \<and> (case linkedModel of None \<Rightarrow> False | Some lm \<Rightarrow> m_hasRelationFields lm)
             then [includeSchemaImport cfg modelType] else [])
      in case forEachArgImports cfg imports0 args of
           Inl e \<Rightarrow> Inl e
         | Inr imports \<Rightarrow>
             Inr (new_Set (filter (\<lambda>imp. \<not> String_includes imp ''IntSchema''
                                       \<and> \<not> String_includes imp ''BooleanSchema'') imports)))"

text \<open>The constructor: \<open>Inl\<close> when it throws.\<close>

definition ExtendedDMMFSchemaField_new ::
  "string list \<Rightarrow> (string \<Rightarrow> string option) \<Rightarrow>
   (GeneratorConfig \<Rightarrow> DMMF_SchemaArg \<Rightarrow> ExtendedDMMFField option \<Rightarrow> ExtendedDMMFSchemaArg) \<Rightarrow>
   GeneratorConfig \<Rightarrow> DMMF_SchemaField \<Rightarrow> ExtendedDMMFDatamodel \<Rightarrow>
   error + ExtendedDMMFSchemaField" where
  "ExtendedDMMFSchemaField_new actions argMap newArg cfg field datamodel =
     (let name = df_name field;
          prismaAction = setMatchedPrismaAction actions name;
          modelType = setModelType name prismaAction;
          argName = setArgName argMap name prismaAction modelType;
          linkedModel = setLinkedModel datamodel modelType;
          args = setArgs newArg cfg linkedModel (df_args field);
          hasOmitFields = sf_setHasOmitFields name linkedModel
      in case setArgTypeImports cfg name modelType linkedModel args of
           Inl e \<Rightarrow> Inl e
         | Inr argTypeImports \<Rightarrow>
             Inr \<lparr>sf_generatorConfig = cfg, sf_name = name, sf_isNullable = df_isNullable field,
                  sf_outputType = df_outputType field, sf_args = args,
                  sf_prismaAction = prismaAction, sf_argName = argName, sf_modelType = modelType,
                  sf_linkedModel = linkedModel, sf_hasOmitFields = hasOmitFields,
                  sf_argTypeImports = argTypeImports\<rparr>)"

definition createCustomOmitFieldArgType :: "ExtendedDMMFSchemaField \<Rightarrow> bool" where
  "createCustomOmitFieldArgType sf =
     (sf_hasOmitFields sf \<and> list_ex (\<lambda>arg. test_write_data (a_name arg)) (sf_args sf))"

definition getOmitUnionForCustomArgType :: "ExtendedDMMFSchemaField \<Rightarrow> string" where
  "getOmitUnionForCustomArgType sf =
     Array_join
       (map (\<lambda>arg. [CHR 0x22] @ a_name arg @ [CHR 0x22])
          (filter (\<lambda>arg. test_write_data (a_name arg)) (sf_args sf)))
       '' | ''"

text \<open>
  \<^verbatim>\<open>getTypeForCustomArgsType\<close>. \<open>multiTypes\<close> is the \<^verbatim>\<open>map(...).join('')\<close> over the input
  types with their indices; \<open>argTypeText\<close> is the text pushed for one arg that is rewritten.
\<close>

fun multiTypes :: "nat \<Rightarrow> nat \<Rightarrow> InputType list \<Rightarrow> string" where
  "multiTypes len idx [] = []"
| "multiTypes len idx (inputType # rest) =
     (let writeSeperator = (int idx \<noteq> int len - 1) in
      ''z.infer<typeof '' @ it_type inputType @ ''Schema>''
        @ (if writeSeperator then '' | '' else [])
        @ multiTypes len (Suc idx) rest)"

definition argTypeText :: "ExtendedDMMFSchemaArg \<Rightarrow> error + string" where
  "argTypeText arg =
     (let argName = a_name arg @ (if a_isRequired arg then [] else ''?'') @ '': '' in
      if a_hasMultipleTypes arg then
        Inr (argName @ multiTypes (length (a_inputTypes arg)) 0 (a_inputTypes arg))
      else
        (case a_inputTypes arg of
           [] \<Rightarrow> Inl TypeError
         | inputType0 # _ \<Rightarrow>
             Inr (argName @ ''z.infer<typeof '' @ it_type inputType0 @ ''Schema> ''
                    @ (if it_isList inputType0 then ''[]'' else []))))"

fun forEachArgTypes :: "string list \<Rightarrow> ExtendedDMMFSchemaArg list \<Rightarrow> error + string list" where
  "forEachArgTypes acc [] = Inr acc"
| "forEachArgTypes acc (arg # args) =
     (if \<not> a_rewriteArgWithNewType arg then forEachArgTypes acc args
      else
        (case argTypeText arg of
           Inl e \<Rightarrow> Inl e
         | Inr t \<Rightarrow> forEachArgTypes (acc @ [t]) args))"

definition getTypeForCustomArgsType :: "ExtendedDMMFSchemaField \<Rightarrow> error + string" where
  "getTypeForCustomArgsType sf =
     (case forEachArgTypes [] (sf_args sf) of
        Inl e \<Rightarrow> Inl e
      | Inr args \<Rightarrow> Inr (Array_join args '', ''))"

section \<open>Notions of the specification\<close>

text \<open>
  The specification's wording of the import set: the statements with duplicates removed,
  each kept at the place where it is seen first.
\<close>

definition dedup_first_seen :: "string list \<Rightarrow> string list" where
  "dedup_first_seen xs = rev (remdups (rev xs))"

text \<open>
  The specification's wording of the automatic statements: the nullable-JSON helper, the
  input-JSON helper, the database-client import, then one enum-schema import per enum field.
\<close>

definition spec_automatic_statements ::
  "GeneratorConfig \<Rightarrow> ExtendedDMMFField list \<Rightarrow> string list" where
  "spec_automatic_statements cfg flds =
     (if list_ex (\<lambda>field. f_isJsonType field \<and> \<not> f_isRequired field) flds
      then [''import { NullableJsonValue } from \"../helpers''] else [])
     @ (if list_ex (\<lambda>field. f_isJsonType field \<and> f_isRequired field) flds
        then [''import { InputJsonValue } from \"../helpers''] else [])
     @ (if list_ex (\<lambda>field. f_isDecimalType field) flds
        then [''import * as PrismaClient from '' @ [CHR 0x27] @ prismaClientPath cfg @ [CHR 0x27]]
        else [])
     @ map enumSchemaImport (filter (\<lambda>field. f_kind field = ''enum'') flds)"

text \<open>The directive-derived statements of a documentation: none when there is no directive.\<close>

definition directiveStatements :: "string option \<Rightarrow> string \<Rightarrow> string list" where
  "directiveStatements documentation errorLocation =
     (case extractZodDirectives documentation errorLocation of
        Inr (Some zd) \<Rightarrow> statements zd
      | _ \<Rightarrow> [])"

text \<open>The precondition of the partition: every kind tag is one of the three known ones.\<close>

definition kinds_known :: "ExtendedDMMFField list \<Rightarrow> bool" where
  "kinds_known flds =
     list_all (\<lambda>field. f_kind field = ''scalar'' \<or> f_kind field = ''object''
                       \<or> f_kind field = ''enum'') flds"

text \<open>The args that the schema field constructor builds, and the precondition on them.\<close>

definition constructedArgs ::
  "string list \<Rightarrow>
   (GeneratorConfig \<Rightarrow> DMMF_SchemaArg \<Rightarrow> ExtendedDMMFField option \<Rightarrow> ExtendedDMMFSchemaArg) \<Rightarrow>
   GeneratorConfig \<Rightarrow> DMMF_SchemaField \<Rightarrow> ExtendedDMMFDatamodel \<Rightarrow>
   ExtendedDMMFSchemaArg list" where
  "constructedArgs actions newArg cfg field datamodel =
     setArgs newArg cfg
       (setLinkedModel datamodel
          (setModelType (df_name field) (setMatchedPrismaAction actions (df_name field))))
       (df_args field)"

definition have_input_type :: "ExtendedDMMFSchemaArg list \<Rightarrow> bool" where
  "have_input_type args = list_all (\<lambda>arg. a_inputTypes arg \<noteq> []) args"

section \<open>Example data\<close>

definition example_config :: GeneratorConfig where
  "example_config =
     \<lparr>prismaClientPath = ''@prisma/client'', inputTypePath = ''inputTypeSchemas'',
      createOptionalDefaultValuesTypes = False\<rparr>"

definition example_field :: "string \<Rightarrow> string \<Rightarrow> string \<Rightarrow> bool \<Rightarrow> ExtendedDMMFField" where
  "example_field name kind type required =
     \<lparr>f_name = name, f_kind = kind, f_type = type, f_isRequired = required,
      f_isJsonType = (type = ''Json''), f_isDecimalType = (type = ''Decimal''),
      f_isOmitField = False, f_isOptionalDefaultField = False\<rparr>"

text \<open>In the examples the raw field descriptor already carries the derived attributes.\<close>

definition example_newField ::
  "GeneratorConfig \<Rightarrow> ExtendedDMMFField \<Rightarrow> string \<Rightarrow> ExtendedDMMFField" where
  "example_newField cfg field modelName = field"

definition example_model ::
  "string \<Rightarrow> ExtendedDMMFField list \<Rightarrow> string option \<Rightarrow> ExtendedDMMFField DMMF_Model" where
  "example_model name flds doc =
     \<lparr>dm_name = name, dm_dbName = None, dm_fields = flds, dm_uniqueFields = [],
      dm_documentation = doc\<rparr>"

definition example_fields :: "ExtendedDMMFField list" where
  "example_fields =
     [example_field ''id'' ''scalar'' ''Int'' True,
      example_field ''role'' ''enum'' ''Role'' True,
      example_field ''meta'' ''scalar'' ''Json'' False,
      example_field ''posts'' ''object'' ''Post'' True,
      example_field ''rank'' ''enum'' ''Role'' True]"

text \<open>A model without fields and documentation, as the constructor returns it.\<close>

definition example_extended :: "string \<Rightarrow> ExtendedDMMFModel" where
  "example_extended name =
     \<lparr>m_generatorConfig = example_config, m_name = name, m_dbName = None, m_fields = [],
      m_uniqueFields = [], m_documentation = None, m_scalarFields = [], m_relationFields = [],
      m_enumFields = [], m_hasRelationFields = False, m_hasOmitFields = False, m_imports = [],
      m_errorLocation = setErrorLocation name, m_clearedDocumentation = None\<rparr>"

text \<open>
  Modelled from the spec: a verb array and a label map to run the examples on, in place of
  \<^verbatim>\<open>PRISMA_ACTION_ARRAY\<close> and \<^verbatim>\<open>PRISMA_ACTION_ARG_MAP\<close> (\<^verbatim>\<open>../constants/objectMaps\<close> is not part
  of the sources at hand). The verbs are those the specification's data model lists; the
  label of a verb is its PascalCase form.
\<close>

definition example_actions :: "string list" where
  "example_actions =
     [''findMany'', ''findFirst'', ''create'', ''update'', ''upsert'', ''delete'', ''aggregate'',
      ''groupBy'']"

definition example_argMap :: "string \<Rightarrow> string option" where
  "example_argMap =
     map_of [(''findMany'', ''FindMany''), (''findFirst'', ''FindFirst''), (''create'', ''Create''),
             (''update'', ''Update''), (''upsert'', ''Upsert''), (''delete'', ''Delete''),
             (''aggregate'', ''Aggregate''), (''groupBy'', ''GroupBy'')]"

text \<open>In the examples an arg has multiple types when it has more than one input type, and
  it is rewritten when its name matches the write-or-data pattern.\<close>

definition example_newArg ::
  "GeneratorConfig \<Rightarrow> DMMF_SchemaArg \<Rightarrow> ExtendedDMMFField option \<Rightarrow> ExtendedDMMFSchemaArg" where
  "example_newArg cfg arg linkedField =
     \<lparr>a_name = da_name arg, a_isRequired = da_isRequired arg, a_inputTypes = da_inputTypes arg,
      a_hasMultipleTypes = (length (da_inputTypes arg) > 1),
      a_rewriteArgWithNewType = test_write_data (da_name arg)\<rparr>"

definition example_arg :: "string \<Rightarrow> InputType list \<Rightarrow> DMMF_SchemaArg" where
  "example_arg name inputTypes =
     \<lparr>da_name = name, da_isNullable = False, da_isRequired = True, da_inputTypes = inputTypes\<rparr>"

definition example_action :: "string \<Rightarrow> DMMF_SchemaArg list \<Rightarrow> DMMF_SchemaField" where
  "example_action name args =
     \<lparr>df_name = name, df_isNullable = False,
      df_outputType = \<lparr>ot_type = ''User'', ot_isList = False, ot_location = ''outputObjectTypes''\<rparr>,
      df_args = args\<rparr>"

definition example_datamodel :: ExtendedDMMFDatamodel where
  "example_datamodel = \<lparr>models = [example_extended ''User'']\<rparr>"

definition example_updateUser :: DMMF_SchemaField where
  "example_updateUser =
     example_action ''updateUser''
       [example_arg ''data'' [\<lparr>it_type = ''UserUpdateInput'', it_isList = False\<rparr>],
        example_arg ''where'' [\<lparr>it_type = ''UserWhereUniqueInput'', it_isList = False\<rparr>]]"

definition example_findManyUser :: DMMF_SchemaField where
  "example_findManyUser =
     example_action ''findManyUser''
       [example_arg ''where'' [\<lparr>it_type = ''UserWhereInput'', it_isList = False\<rparr>]]"

definition example_omit_fields :: "ExtendedDMMFField list" where
  "example_omit_fields =
     [\<lparr>f_name = ''password'', f_kind = ''scalar'', f_type = ''String'', f_isRequired = True,
       f_isJsonType = False, f_isDecimalType = False, f_isOmitField = True,
       f_isOptionalDefaultField = False\<rparr>]"

definition example_omit_user :: ExtendedDMMFModel where
  "example_omit_user =
     \<lparr>m_generatorConfig = example_config, m_name = ''User'', m_dbName = None,
      m_fields = example_omit_fields, m_uniqueFields = [], m_documentation = None,
      m_scalarFields = example_omit_fields, m_relationFields = [], m_enumFields = [],
      m_hasRelationFields = False, m_hasOmitFields = True, m_imports = [],
      m_errorLocation = setErrorLocation ''User'', m_clearedDocumentation = None\<rparr>"

definition example_createManyUser :: DMMF_SchemaField where
  "example_createManyUser =
     example_action ''createManyUser''
       [example_arg ''data''
          [\<lparr>it_type = ''UserCreateManyInput'', it_isList = False\<rparr>,
           \<lparr>it_type = ''UserCreateManyInput'', it_isList = True\<rparr>]]"

definition example_documentation :: string where
  "example_documentation = ''some text @zod.import([\"import { x } from 'y'\"])''"

definition example_two_directives :: string where
  "example_two_directives = ''@zod.import([\"import a\"]) @zod.import([\"import b\"])''"

definition example_bad_documentation :: string where
  "example_bad_documentation = ''a user @zod.custom([\"x\"])''"

definition example_directive_model :: "ExtendedDMMFField DMMF_Model" where
  "example_directive_model = example_model ''User'' example_fields (Some example_documentation)"



definition example_later_bad_marker :: string where
  "example_later_bad_marker = ''@zod.import([\"import a\"]) @zod.custom([\"b\"])''"

section \<open>Facts about the built-ins\<close>

lemma String_includes_iff: "String_includes s t \<longleftrightarrow> (\<exists>pre post. s = pre @ t @ post)"
proof (induction s)
  case Nil
  then show ?case by auto
next
  case (Cons c cs)
  show ?case
  proof
    assume "String_includes (c # cs) t"
    then consider "prefix t (c # cs)" | "String_includes cs t" by auto
    then show "\<exists>pre post. c # cs = pre @ t @ post"
    proof cases
      case 1
      then obtain post where "c # cs = t @ post" by (auto simp: prefix_def)
      then have "c # cs = [] @ t @ post" by simp
      then show ?thesis by blast
    next
      case 2
      with Cons.IH obtain pre post where "cs = pre @ t @ post" by blast
      then have "c # cs = (c # pre) @ t @ post" by simp
      then show ?thesis by blast
    qed
  next
    assume "\<exists>pre post. c # cs = pre @ t @ post"
    then obtain pre post where eq: "c # cs = pre @ t @ post" by blast
    show "String_includes (c # cs) t"
    proof (cases pre)
      case Nil
      with eq have "prefix t (c # cs)" by (simp add: prefix_def)
      then show ?thesis by simp
    next
      case (Cons p pre')
      with eq have "cs = pre' @ t @ post" by simp
      with Cons.IH have "String_includes cs t" by blast
      then show ?thesis by simp
    qed
  qed
qed

lemma String_includes_middle: "String_includes (pre @ t @ post) t"
  by (auto simp: String_includes_iff)

lemma String_replace_removes:
  "String_includes s t \<Longrightarrow> \<exists>pre post. s = pre @ t @ post \<and> String_replace s t [] = pre @ post"
proof (induction s)
  case Nil
  then show ?case by simp
next
  case (Cons c cs)
  show ?case
  proof (cases "prefix t (c # cs)")
    case True
    then obtain post where p: "c # cs = t @ post" by (auto simp: prefix_def)
    then have d: "drop (length t) (c # cs) = post" by simp
    have "String_replace (c # cs) t [] = drop (length t) (c # cs)"
      using True by simp
    with d have r: "String_replace (c # cs) t [] = [] @ post" by simp
    from p have "c # cs = [] @ t @ post" by simp
    with r show ?thesis by blast
  next
    case False
    with Cons.prems have "String_includes cs t" by simp
    with Cons.IH obtain pre post where
      "cs = pre @ t @ post" "String_replace cs t [] = pre @ post" by blast
    with False have
      "c # cs = (c # pre) @ t @ post \<and> String_replace (c # cs) t [] = (c # pre) @ post"
      by simp
    then show ?thesis by blast
  qed
qed

lemma foldl_Set_add_snoc: "foldl Set_add acc (xs @ [x]) = Set_add (foldl Set_add acc xs) x"
  by simp

lemma new_Set_dedup: "new_Set xs = dedup_first_seen xs"
proof (induction xs rule: rev_induct)
  case Nil
  show ?case by (simp add: new_Set_def dedup_first_seen_def)
next
  case (snoc x xs)
  have s: "set (new_Set xs) = set xs"
    by (simp add: snoc.IH dedup_first_seen_def)
  have "new_Set (xs @ [x]) = Set_add (new_Set xs) x"
    by (simp add: new_Set_def)
  also have "\<dots> = (if x \<in> set xs then new_Set xs else new_Set xs @ [x])"
    by (simp add: Set_add_def s)
  also have "\<dots> = dedup_first_seen (xs @ [x])"
    by (simp add: snoc.IH dedup_first_seen_def)
  finally show ?case .
qed

lemma dedup_first_seen_distinct: "distinct (dedup_first_seen xs)"
  by (simp add: dedup_first_seen_def)

lemma dedup_first_seen_set: "set (dedup_first_seen xs) = set xs"
  by (simp add: dedup_first_seen_def)

lemma dedup_first_seen_Cons:
  "dedup_first_seen (x # xs) = x # dedup_first_seen (filter (\<lambda>y. y \<noteq> x) xs)"
proof -
  have "remdups (ys @ [x]) = filter (\<lambda>y. y \<noteq> x) (remdups ys) @ [x]" for ys :: "string list"
    by (induction ys) auto
  then have "remdups (rev xs @ [x]) = remdups (filter (\<lambda>y. y \<noteq> x) (rev xs)) @ [x]"
    by (simp add: remdups_filter)
  then show ?thesis
    by (simp add: dedup_first_seen_def rev_filter)
qed

section \<open>The model constructor\<close>

lemma constructed_model_fields:
  assumes "ExtendedDMMFModel_new newField cfg model = Inr m"
  shows "m_fields m = getExtendedFields newField cfg model"
    and "m_scalarFields m = setScalarFields (m_fields m)"
    and "m_relationFields m = setRelationFields (m_fields m)"
    and "m_enumFields m = setEnumfields (m_fields m)"
    and "m_name m = dm_name model"
  using assms
  by (auto simp: ExtendedDMMFModel_new_def Let_def split: sum.splits)

lemma three_way_filter_mset:
  assumes "list_all (\<lambda>x. k x = a \<or> k x = b \<or> k x = c) xs"
    and "a \<noteq> b" and "a \<noteq> c" and "b \<noteq> c"
  shows "mset (filter (\<lambda>x. k x = a) xs) + mset (filter (\<lambda>x. k x = b) xs)
         + mset (filter (\<lambda>x. k x = c) xs) = mset xs"
  using assms by (induction xs) auto

lemma example_model_new:
  "ExtendedDMMFModel_new example_newField example_config
     (example_model ''User'' example_fields None) =
   Inr \<lparr>m_generatorConfig = example_config, m_name = ''User'', m_dbName = None,
        m_fields = example_fields, m_uniqueFields = [], m_documentation = None,
        m_scalarFields = [example_field ''id'' ''scalar'' ''Int'' True,
                          example_field ''meta'' ''scalar'' ''Json'' False],
        m_relationFields = [example_field ''posts'' ''object'' ''Post'' True],
        m_enumFields = [example_field ''role'' ''enum'' ''Role'' True,
                        example_field ''rank'' ''enum'' ''Role'' True],
        m_hasRelationFields = True, m_hasOmitFields = False,
        m_imports = [''import { NullableJsonValue } from \"../helpers'',
                     ''import { RoleSchema } from '' @ [CHR 0x27] @ ''../enums/RoleSchema''
                       @ [CHR 0x27]],
        m_errorLocation = setErrorLocation ''User'', m_clearedDocumentation = None\<rparr>"
  by (simp add: ExtendedDMMFModel_new_def Let_def getExtendedFields_def example_model_def
      example_newField_def example_fields_def example_field_def setScalarFields_def
      setRelationFields_def setEnumfields_def setHasRelationFields_def setHasOmitFields_def
      getDocumentationContent_def extractZodDirectives_def getAutomaticImports_def
      enumSchemaImport_def new_Set_def Set_add_def)

text \<open>
  Claim C1. For a constructed model whose fields all carry one of the kind tags
  \<^verbatim>\<open>scalar\<close>, \<^verbatim>\<open>object\<close>, \<^verbatim>\<open>enum\<close>, the lists \<open>scalarFields\<close>, \<open>relationFields\<close> and
  \<open>enumFields\<close> partition the field list: their union is the set of fields, they are
  pairwise disjoint, each is a subsequence of the field list (the declaration order is
  kept), and together they hold every field exactly as often as the field list does (no
  field duplicated, none omitted).
\<close>

theorem model_field_partition:
  assumes "ExtendedDMMFModel_new newField cfg model = Inr m"
    and "kinds_known (m_fields m)"
  shows "set (m_scalarFields m) \<union> set (m_relationFields m) \<union> set (m_enumFields m)
           = set (m_fields m)
       \<and> set (m_scalarFields m) \<inter> set (m_relationFields m) = {}
       \<and> set (m_scalarFields m) \<inter> set (m_enumFields m) = {}
       \<and> set (m_relationFields m) \<inter> set (m_enumFields m) = {}
       \<and> subseq (m_scalarFields m) (m_fields m)
       \<and> subseq (m_relationFields m) (m_fields m)
       \<and> subseq (m_enumFields m) (m_fields m)
       \<and> mset (m_scalarFields m) + mset (m_relationFields m) + mset (m_enumFields m)
           = mset (m_fields m)"
proof -
  note eqs = constructed_model_fields(2-4)[OF assms(1)]
  have k: "list_all (\<lambda>x. f_kind x = ''scalar'' \<or> f_kind x = ''object'' \<or> f_kind x = ''enum'')
             (m_fields m)"
    using assms(2) by (simp add: kinds_known_def)
  have ms: "mset (m_scalarFields m) + mset (m_relationFields m) + mset (m_enumFields m)
           = mset (m_fields m)"
    unfolding eqs setScalarFields_def setRelationFields_def setEnumfields_def
    by (rule three_way_filter_mset[OF k]) simp_all
  have un: "set (m_scalarFields m) \<union> set (m_relationFields m) \<union> set (m_enumFields m)
           = set (m_fields m)"
    using arg_cong[OF ms, of set_mset] by simp
  have d1: "set (m_scalarFields m) \<inter> set (m_relationFields m) = {}"
    unfolding eqs setScalarFields_def setRelationFields_def by auto
  have d2: "set (m_scalarFields m) \<inter> set (m_enumFields m) = {}"
    unfolding eqs setScalarFields_def setEnumfields_def by auto
  have d3: "set (m_relationFields m) \<inter> set (m_enumFields m) = {}"
    unfolding eqs setRelationFields_def setEnumfields_def by auto
  have s1: "subseq (m_scalarFields m) (m_fields m)"
    unfolding eqs setScalarFields_def by simp
  have s2: "subseq (m_relationFields m) (m_fields m)"
    unfolding eqs setRelationFields_def by simp
  have s3: "subseq (m_enumFields m) (m_fields m)"
    unfolding eqs setEnumfields_def by simp
  from un d1 d2 d3 s1 s2 s3 ms show ?thesis by blast
qed

theorem model_field_partition_witness:
  "\<exists>m. ExtendedDMMFModel_new example_newField example_config
          (example_model ''User'' example_fields None) = Inr m
     \<and> m_fields m = example_fields
     \<and> kinds_known (m_fields m)
     \<and> set (m_scalarFields m) \<union> set (m_relationFields m) \<union> set (m_enumFields m)
           = set (m_fields m)
     \<and> mset (m_scalarFields m) + mset (m_relationFields m) + mset (m_enumFields m)
           = mset (m_fields m)"
proof -
  obtain m where m: "ExtendedDMMFModel_new example_newField example_config
          (example_model ''User'' example_fields None) = Inr m"
    and f: "m_fields m = example_fields"
    using example_model_new by simp
  have k: "kinds_known (m_fields m)"
    by (simp add: f kinds_known_def example_fields_def example_field_def)
  from model_field_partition[OF m k] m f k show ?thesis by blast
qed

section \<open>The schema field constructor and its args\<close>

lemma pushArgImports_total:
  "a_inputTypes arg \<noteq> [] \<Longrightarrow> \<exists>r. pushArgImports cfg imps arg = Inr r"
  by (cases "a_inputTypes arg") (auto simp: pushArgImports_def)

lemma forEachArgImports_total:
  "have_input_type args \<Longrightarrow> \<exists>r. forEachArgImports cfg imps args = Inr r"
proof (induction args arbitrary: imps)
  case Nil
  then show ?case by simp
next
  case (Cons arg args)
  then have "a_inputTypes arg \<noteq> []" and rest: "have_input_type args"
    by (simp_all add: have_input_type_def)
  then obtain r where "pushArgImports cfg imps arg = Inr r"
    using pushArgImports_total by blast
  with Cons.IH[OF rest] show ?case by simp
qed

lemma setArgTypeImports_total:
  assumes "have_input_type args"
  shows "\<exists>r. setArgTypeImports cfg name modelType linkedModel args = Inr r"
proof -
  obtain r where "forEachArgImports cfg
       (if includeInSelectAndIncludeArgs name
                \<and> (case linkedModel of None \<Rightarrow> False | Some lm \<Rightarrow> m_hasRelationFields lm)
             then [includeSchemaImport cfg modelType] else []) args = Inr r"
    using forEachArgImports_total[OF assms] by blast
  then show ?thesis by (simp add: setArgTypeImports_def)
qed

lemma argTypeText_total: "a_inputTypes arg \<noteq> [] \<Longrightarrow> \<exists>t. argTypeText arg = Inr t"
  by (cases "a_inputTypes arg") (auto simp: argTypeText_def Let_def)

lemma forEachArgTypes_total:
  "have_input_type args \<Longrightarrow> \<exists>r. forEachArgTypes acc args = Inr r"
proof (induction args arbitrary: acc)
  case Nil
  then show ?case by simp
next
  case (Cons arg args)
  then have "a_inputTypes arg \<noteq> []" and rest: "have_input_type args"
    by (simp_all add: have_input_type_def)
  then obtain t where "argTypeText arg = Inr t"
    using argTypeText_total by blast
  with Cons.IH[OF rest] show ?case by simp
qed

lemma getTypeForCustomArgsType_total:
  assumes "have_input_type (sf_args sf)"
  shows "\<exists>t. getTypeForCustomArgsType sf = Inr t"
proof -
  obtain r where "forEachArgTypes [] (sf_args sf) = Inr r"
    using forEachArgTypes_total[OF assms] by blast
  then show ?thesis by (simp add: getTypeForCustomArgsType_def)
qed

lemma constructed_schema_field:
  assumes "ExtendedDMMFSchemaField_new actions argMap newArg cfg field datamodel = Inr sf"
  shows "sf_name sf = df_name field"
    and "sf_prismaAction sf = setMatchedPrismaAction actions (df_name field)"
    and "sf_modelType sf = setModelType (df_name field) (sf_prismaAction sf)"
    and "sf_argName sf = setArgName argMap (df_name field) (sf_prismaAction sf) (sf_modelType sf)"
    and "sf_linkedModel sf = setLinkedModel datamodel (sf_modelType sf)"
    and "sf_args sf = constructedArgs actions newArg cfg field datamodel"
    and "sf_hasOmitFields sf = sf_setHasOmitFields (df_name field) (sf_linkedModel sf)"
  using assms
  by (auto simp: ExtendedDMMFSchemaField_new_def Let_def constructedArgs_def split: sum.splits)

lemma schema_field_new_total:
  assumes "have_input_type (constructedArgs actions newArg cfg field datamodel)"
  shows "\<exists>sf. ExtendedDMMFSchemaField_new actions argMap newArg cfg field datamodel = Inr sf"
proof -
  obtain r where "setArgTypeImports cfg (df_name field)
      (setModelType (df_name field) (setMatchedPrismaAction actions (df_name field)))
      (setLinkedModel datamodel
          (setModelType (df_name field) (setMatchedPrismaAction actions (df_name field))))
      (constructedArgs actions newArg cfg field datamodel) = Inr r"
    using setArgTypeImports_total[OF assms] by blast
  then show ?thesis
    by (simp add: ExtendedDMMFSchemaField_new_def Let_def constructedArgs_def)
qed

text \<open>The error branch is a real one: an arg with a single type slot and no input type throws.\<close>

lemma missing_input_type_throws:
  "\<not> a_hasMultipleTypes arg \<Longrightarrow> a_inputTypes arg = [] \<Longrightarrow>
   pushArgImports cfg imps arg = Inl TypeError
   \<and> (a_rewriteArgWithNewType arg \<longrightarrow> forEachArgTypes acc (arg # args) = Inl TypeError)"
  by (simp add: pushArgImports_def argTypeText_def Let_def)

text \<open>
  Claim C10. The import emission of the constructor and the custom-argument-type field
  list read the first input type of an arg. When every arg that the constructor builds
  carries at least one input type, neither reaches the failing access: the constructor
  returns a schema field, and \<open>getTypeForCustomArgsType\<close> returns a text for it.
\<close>

theorem first_input_type_access_safe:
  assumes "have_input_type (constructedArgs actions newArg cfg field datamodel)"
  shows "\<exists>sf. ExtendedDMMFSchemaField_new actions argMap newArg cfg field datamodel = Inr sf
            \<and> sf_args sf = constructedArgs actions newArg cfg field datamodel
            \<and> (\<exists>t. getTypeForCustomArgsType sf = Inr t)"
proof -
  obtain sf where
    sf: "ExtendedDMMFSchemaField_new actions argMap newArg cfg field datamodel = Inr sf"
    using schema_field_new_total[OF assms] by blast
  have a: "sf_args sf = constructedArgs actions newArg cfg field datamodel"
    by (rule constructed_schema_field(6)[OF sf])
  with assms have "have_input_type (sf_args sf)" by simp
  then have "\<exists>t. getTypeForCustomArgsType sf = Inr t"
    by (rule getTypeForCustomArgsType_total)
  with sf a show ?thesis by blast
qed

theorem first_input_type_access_safe_witness:
  "have_input_type
     (constructedArgs example_actions example_newArg example_config example_updateUser
        example_datamodel)
   \<and> (\<exists>sf. ExtendedDMMFSchemaField_new example_actions example_argMap example_newArg
              example_config example_updateUser example_datamodel = Inr sf
          \<and> (\<exists>t. getTypeForCustomArgsType sf = Inr t))"
proof -
  have h: "have_input_type
     (constructedArgs example_actions example_newArg example_config example_updateUser
        example_datamodel)"
    by (simp add: have_input_type_def constructedArgs_def setArgs_def example_updateUser_def
        example_action_def example_arg_def example_newArg_def)
  from first_input_type_access_safe[OF h, of example_argMap] h show ?thesis by blast
qed

section \<open>Verb, model type, arg name and linked model\<close>

lemmas example_defs =
  example_actions_def example_argMap_def example_newArg_def example_config_def
  example_action_def example_arg_def example_extended_def example_datamodel_def

lemmas schema_field_defs =
  ExtendedDMMFSchemaField_new_def Let_def setMatchedPrismaAction_def setModelType_def
  setArgName_def setLinkedModel_def setArgs_def sf_setHasOmitFields_def setArgTypeImports_def
  render_def test_write_def test_write_data_def includeInSelectAndIncludeArgs_def
  pushArgImports_def schemaImport_def includeSchemaImport_def new_Set_def Set_add_def

lemma example_extended_new:
  "ExtendedDMMFModel_new example_newField example_config (example_model name [] None)
   = Inr (example_extended name)"
  by (simp add: ExtendedDMMFModel_new_def Let_def getExtendedFields_def example_model_def
      setScalarFields_def setRelationFields_def setEnumfields_def setHasRelationFields_def
      setHasOmitFields_def getDocumentationContent_def extractZodDirectives_def
      getAutomaticImports_def new_Set_def example_extended_def)

lemma example_omit_user_new:
  "ExtendedDMMFModel_new example_newField example_config
     (example_model ''User'' example_omit_fields None) = Inr example_omit_user"
  by (simp add: ExtendedDMMFModel_new_def Let_def getExtendedFields_def example_model_def
      example_newField_def example_omit_fields_def example_omit_user_def
      setScalarFields_def setRelationFields_def setEnumfields_def setHasRelationFields_def
      setHasOmitFields_def getDocumentationContent_def extractZodDirectives_def
      getAutomaticImports_def new_Set_def)

lemma find_first_match:
  "list_all (\<lambda>y. \<not> P y) before \<Longrightarrow> P x \<Longrightarrow> find P (before @ x # after) = Some x"
  by (induction before) auto

lemma find_no_match: "list_all (\<lambda>y. \<not> P y) xs \<Longrightarrow> find P xs = None"
  by (induction xs) auto

text \<open>
  Claim C8. For the action named \<^verbatim>\<open>findManyUser\<close> the matched verb is \<^verbatim>\<open>findMany\<close>, the
  model type is \<^verbatim>\<open>User\<close>, the arg name is \<^verbatim>\<open>UserFindManyArgs\<close> and \<open>hasOmitFields\<close> is false.
  The verb array and the label map are parameters: \<^verbatim>\<open>findMany\<close> is in the array, no verb
  listed before it occurs in the name, and its registered label is \<^verbatim>\<open>FindMany\<close>.
\<close>

theorem findManyUser_metadata:
  assumes "actions = before @ ''findMany'' # after"
    and "list_all (\<lambda>elem. \<not> String_includes ''findManyUser'' elem) before"
    and "argMap ''findMany'' = Some ''FindMany''"
    and "df_name field = ''findManyUser''"
    and "ExtendedDMMFSchemaField_new actions argMap newArg cfg field datamodel = Inr sf"
  shows "sf_prismaAction sf = Some ''findMany'' \<and> sf_modelType sf = ''User''
       \<and> sf_argName sf = Some ''UserFindManyArgs'' \<and> sf_hasOmitFields sf = False"
proof -
  note c = constructed_schema_field[OF assms(5)]
  have i: "String_includes ''findManyUser'' ''findMany''" by simp
  have "find (\<lambda>elem. String_includes ''findManyUser'' elem) (before @ ''findMany'' # after)
        = Some ''findMany''"
    using find_first_match[of "\<lambda>elem. String_includes ''findManyUser'' elem" before
        "''findMany''" after] assms(2) i by simp
  then have v: "sf_prismaAction sf = Some ''findMany''"
    by (simp add: c(2) assms(4) assms(1) setMatchedPrismaAction_def)
  have t: "sf_modelType sf = ''User''"
    by (simp add: c(3) assms(4) v setModelType_def render_def)
  have a: "sf_argName sf = Some ''UserFindManyArgs''"
    by (simp add: c(4) assms(4) v t setArgName_def render_def assms(3))
  have h: "sf_hasOmitFields sf = False"
    by (simp add: c(7) assms(4) sf_setHasOmitFields_def test_write_def)
  from v t a h show ?thesis by simp
qed

theorem findManyUser_metadata_witness:
  "example_actions = [] @ ''findMany'' # [''findFirst'', ''create'', ''update'', ''upsert'',
      ''delete'', ''aggregate'', ''groupBy'']
   \<and> list_all (\<lambda>elem. \<not> String_includes ''findManyUser'' elem) []
   \<and> example_argMap ''findMany'' = Some ''FindMany''
   \<and> df_name example_findManyUser = ''findManyUser''
   \<and> (\<exists>sf. ExtendedDMMFSchemaField_new example_actions example_argMap example_newArg
              example_config example_findManyUser example_datamodel = Inr sf
          \<and> sf_prismaAction sf = Some ''findMany'' \<and> sf_modelType sf = ''User''
          \<and> sf_argName sf = Some ''UserFindManyArgs'' \<and> sf_hasOmitFields sf = False)"
proof -
  have h1: "example_actions = [] @ ''findMany'' # [''findFirst'', ''create'', ''update'',
      ''upsert'', ''delete'', ''aggregate'', ''groupBy'']"
    by (simp add: example_actions_def)
  have h2: "list_all (\<lambda>elem. \<not> String_includes ''findManyUser'' elem) []" by simp
  have h3: "example_argMap ''findMany'' = Some ''FindMany''"
    by (simp add: example_argMap_def)
  have h4: "df_name example_findManyUser = ''findManyUser''"
    by (simp add: example_findManyUser_def example_action_def)
  have "have_input_type (constructedArgs example_actions example_newArg example_config
           example_findManyUser example_datamodel)"
    by (simp add: have_input_type_def constructedArgs_def setArgs_def example_findManyUser_def
        example_action_def example_arg_def example_newArg_def)
  then obtain sf where sf: "ExtendedDMMFSchemaField_new example_actions example_argMap
      example_newArg example_config example_findManyUser example_datamodel = Inr sf"
    using schema_field_new_total by blast
  note r = findManyUser_metadata[OF h1 h2 h3 h4 sf]
  have e: "\<exists>sf. ExtendedDMMFSchemaField_new example_actions example_argMap example_newArg
              example_config example_findManyUser example_datamodel = Inr sf
          \<and> sf_prismaAction sf = Some ''findMany'' \<and> sf_modelType sf = ''User''
          \<and> sf_argName sf = Some ''UserFindManyArgs'' \<and> sf_hasOmitFields sf = False"
    by (rule exI[of _ sf]) (rule conjI[OF sf r])
  show ?thesis by (rule conjI[OF h1 conjI[OF h2 conjI[OF h3 conjI[OF h4 e]]]])
qed

text \<open>
  Claim C7 asks that, with models \<^verbatim>\<open>User\<close> and \<^verbatim>\<open>UserProfile\<close> both in the root graph, an
  action over \<^verbatim>\<open>UserProfile\<close> is linked to the \<^verbatim>\<open>UserProfile\<close> model whatever the declaration
  order. With \<^verbatim>\<open>User\<close> declared first, the action \<^verbatim>\<open>findManyUserProfile\<close> has model type
  \<^verbatim>\<open>UserProfile\<close> and is linked to the model \<^verbatim>\<open>User\<close>.
\<close>

theorem linkedModel_UserProfile_counterexample:
  "(case ExtendedDMMFSchemaField_new example_actions example_argMap example_newArg
           example_config (example_action ''findManyUserProfile'' [])
           \<lparr>models = [example_extended ''User'', example_extended ''UserProfile'']\<rparr> of
      Inl e \<Rightarrow> False
    | Inr sf \<Rightarrow> sf_modelType sf = ''UserProfile''
              \<and> map_option m_name (sf_linkedModel sf) = Some ''User'')"
  by (simp add: schema_field_defs example_defs)

text \<open>
  Claim C7, amended. The lookup resolves a model type to the first model in declaration
  order whose name occurs in the model type: a model is the linked one when its name occurs
  in the model type and the name of no model declared before it does.
\<close>

theorem linkedModel_first_match:
  assumes "models datamodel = before @ model # after"
    and "String_includes modelType (m_name model)"
    and "list_all (\<lambda>earlier. \<not> String_includes modelType (m_name earlier)) before"
  shows "setLinkedModel datamodel modelType = Some model"
  using find_first_match[of "\<lambda>m. String_includes modelType (m_name m)" before model after]
    assms
  by (simp add: setLinkedModel_def)

theorem linkedModel_first_match_witness:
  "models \<lparr>models = [example_extended ''Post'', example_extended ''UserProfile'',
                      example_extended ''User'']\<rparr>
     = [example_extended ''Post''] @ example_extended ''UserProfile'' # [example_extended ''User'']
   \<and> String_includes ''UserProfile'' (m_name (example_extended ''UserProfile''))
   \<and> list_all (\<lambda>earlier. \<not> String_includes ''UserProfile'' (m_name earlier))
        [example_extended ''Post'']
   \<and> setLinkedModel \<lparr>models = [example_extended ''Post'', example_extended ''UserProfile'',
                      example_extended ''User'']\<rparr> ''UserProfile''
       = Some (example_extended ''UserProfile'')"
proof -
  have h1: "models \<lparr>models = [example_extended ''Post'', example_extended ''UserProfile'',
                      example_extended ''User'']\<rparr>
     = [example_extended ''Post''] @ example_extended ''UserProfile'' # [example_extended ''User'']"
    by simp
  have h2: "String_includes ''UserProfile'' (m_name (example_extended ''UserProfile''))"
    by (simp add: example_extended_def)
  have h3: "list_all (\<lambda>earlier. \<not> String_includes ''UserProfile'' (m_name earlier))
        [example_extended ''Post'']"
    by (simp add: example_extended_def)
  note r = linkedModel_first_match[OF h1 h2 h3]
  show ?thesis by (rule conjI[OF h1 conjI[OF h2 conjI[OF h3 r]]])
qed

text \<open>
  Claim C2 asks that an action name without a verb aborts the construction. The name
  \<^verbatim>\<open>fooBar\<close> contains no verb of the example array, and the constructor returns a schema
  field whose verb is absent.
\<close>

theorem no_verb_counterexample:
  "list_all (\<lambda>elem. \<not> String_includes ''fooBar'' elem) example_actions
   \<and> (case ExtendedDMMFSchemaField_new example_actions example_argMap example_newArg
           example_config (example_action ''fooBar'' []) example_datamodel of
        Inl e \<Rightarrow> False
      | Inr sf \<Rightarrow> sf_prismaAction sf = None \<and> sf_modelType sf = ''fooBar''
                \<and> sf_argName sf = None)"
  by (simp add: schema_field_defs example_defs)

text \<open>
  Claim C2, amended. When no verb of the array occurs in the action name, verb resolution
  raises no error: the verb is absent, the model type is the name without the first
  occurrence of the text \<^verbatim>\<open>undefined\<close> and then of \<^verbatim>\<open>OrThrow\<close>, the arg name is absent when
  the name has no \<^verbatim>\<open>OrThrow\<close> and nothing is registered under \<^verbatim>\<open>undefined\<close>, and the
  construction completes as soon as every constructed arg carries an input type.
\<close>

theorem no_verb_construction_proceeds:
  assumes "list_all (\<lambda>elem. \<not> String_includes (df_name field) elem) actions"
    and "have_input_type (constructedArgs actions newArg cfg field datamodel)"
  shows "\<exists>sf. ExtendedDMMFSchemaField_new actions argMap newArg cfg field datamodel = Inr sf
            \<and> sf_prismaAction sf = None
            \<and> sf_modelType sf =
                String_replace (String_replace (df_name field) ''undefined'' []) ''OrThrow'' []
            \<and> (\<not> String_includes (df_name field) ''OrThrow'' \<and> argMap ''undefined'' = None
                 \<longrightarrow> sf_argName sf = None)"
proof -
  obtain sf where
    sf: "ExtendedDMMFSchemaField_new actions argMap newArg cfg field datamodel = Inr sf"
    using schema_field_new_total[OF assms(2)] by blast
  note c = constructed_schema_field[OF sf]
  have v: "sf_prismaAction sf = None"
    using find_no_match[of "\<lambda>elem. String_includes (df_name field) elem" actions] assms(1)
    by (simp add: c(2) setMatchedPrismaAction_def)
  have t: "sf_modelType sf =
      String_replace (String_replace (df_name field) ''undefined'' []) ''OrThrow'' []"
    by (simp add: c(3) v setModelType_def render_def)
  have a: "\<not> String_includes (df_name field) ''OrThrow'' \<and> argMap ''undefined'' = None
             \<longrightarrow> sf_argName sf = None"
    by (simp add: c(4) v setArgName_def render_def)
  show ?thesis
    by (rule exI[of _ sf]) (rule conjI[OF sf conjI[OF v conjI[OF t a]]])
qed

theorem no_verb_construction_proceeds_witness:
  "list_all (\<lambda>elem. \<not> String_includes (df_name (example_action ''fooBar'' [])) elem)
     example_actions
   \<and> have_input_type (constructedArgs example_actions example_newArg example_config
        (example_action ''fooBar'' []) example_datamodel)
   \<and> (\<exists>sf. ExtendedDMMFSchemaField_new example_actions example_argMap example_newArg
              example_config (example_action ''fooBar'' []) example_datamodel = Inr sf
          \<and> sf_prismaAction sf = None)"
proof -
  have h1: "list_all (\<lambda>elem. \<not> String_includes (df_name (example_action ''fooBar'' [])) elem)
     example_actions"
    by (simp add: example_action_def example_actions_def)
  have h2: "have_input_type (constructedArgs example_actions example_newArg example_config
        (example_action ''fooBar'' []) example_datamodel)"
    by (simp add: have_input_type_def constructedArgs_def setArgs_def example_action_def)
  from no_verb_construction_proceeds[OF h1 h2, of example_argMap]
  obtain sf where "ExtendedDMMFSchemaField_new example_actions example_argMap example_newArg
              example_config (example_action ''fooBar'' []) example_datamodel = Inr sf
          \<and> sf_prismaAction sf = None"
    by (elim exE conjE) (rule that, rule conjI)
  then have e: "\<exists>sf. ExtendedDMMFSchemaField_new example_actions example_argMap example_newArg
              example_config (example_action ''fooBar'' []) example_datamodel = Inr sf
          \<and> sf_prismaAction sf = None"
    by (rule exI)
  show ?thesis by (rule conjI[OF h1 conjI[OF h2 e]])
qed

text \<open>
  The two paths of \<open>setArgName\<close> when no label is registered: without \<^verbatim>\<open>OrThrow\<close> in the
  name the arg name is absent; with it, the text \<^verbatim>\<open>undefined\<close> is spliced into a name.
\<close>

lemma setArgName_OrThrow_without_label:
  "String_includes name ''OrThrow'' \<Longrightarrow> argMap (render prismaAction) = None \<Longrightarrow>
   setArgName argMap name prismaAction modelType = Some (modelType @ ''undefinedOrThrowArgs'')"
  by (simp add: setArgName_def render_def)

lemma setArgName_without_label:
  "\<not> String_includes name ''OrThrow'' \<Longrightarrow> argMap (render prismaAction) = None \<Longrightarrow>
   setArgName argMap name prismaAction modelType = None"
  by (simp add: setArgName_def)



text \<open>The text for an arg with a single type slot carries the array marker of a list type.\<close>

lemma argTypeText_single_type:
  "\<not> a_hasMultipleTypes arg \<Longrightarrow> a_inputTypes arg = inputType # rest \<Longrightarrow>
   argTypeText arg =
     Inr (a_name arg @ (if a_isRequired arg then [] else ''?'') @ '': ''
          @ ''z.infer<typeof '' @ it_type inputType @ ''Schema> ''
          @ (if it_isList inputType then ''[]'' else []))"
  by (simp add: argTypeText_def)

text \<open>
  Claim C9 says that the field list appends an array marker to each list-valued type, also
  when the arg accepts multiple types. The action \<^verbatim>\<open>createManyUser\<close> over a model with omit
  fields has the arg \<^verbatim>\<open>data\<close> with the input types \<^verbatim>\<open>UserCreateManyInput\<close> and the list of
  \<^verbatim>\<open>UserCreateManyInput\<close>; the field list names the type twice, without any array marker.
\<close>

theorem customArgsType_multiple_types_no_array_marker:
  "(case ExtendedDMMFSchemaField_new example_actions example_argMap example_newArg
           example_config example_createManyUser \<lparr>models = [example_omit_user]\<rparr> of
      Inl e \<Rightarrow> False
    | Inr sf \<Rightarrow> sf_hasOmitFields sf \<and> createCustomOmitFieldArgType sf
              \<and> map a_hasMultipleTypes (sf_args sf) = [True]
              \<and> map (map it_isList \<circ> a_inputTypes) (sf_args sf) = [[False, True]]
              \<and> getTypeForCustomArgsType sf =
                  Inr (''data: z.infer<typeof UserCreateManyInputSchema> | ''
                       @ ''z.infer<typeof UserCreateManyInputSchema>''))"
  by (simp add: schema_field_defs example_defs example_createManyUser_def example_omit_user_def
      createCustomOmitFieldArgType_def getTypeForCustomArgsType_def argTypeText_def)

lemmas directive_defs =
  extractZodDirectives_def IMPORT_STATEMENT_REGEX_here_def statement_here_def
  is_word_char_def is_statement_char_def String_split_def normalize_quotes_def Let_def render_def

lemma example_documentation_extract:
  "extractZodDirectives (Some example_documentation) loc =
     Inr (Some \<lparr>statements = [''import { x } from 'y'' @ [CHR 0x27]],
                zd_clearedDocumentation = ''some text ''\<rparr>)"
  by (simp add: directive_defs example_documentation_def)

text \<open>
  Claim C6 says that extraction on the cleared documentation finds no directive. A
  documentation with two directives loses only the first; the second is still found in the
  cleared documentation.
\<close>

theorem extraction_not_idempotent_counterexample:
  "extractZodDirectives (Some example_two_directives) (setErrorLocation ''User'') =
     Inr (Some \<lparr>statements = [''import a''],
                zd_clearedDocumentation = '' @zod.import([\"import b\"])''\<rparr>)
   \<and> extractZodDirectives (Some '' @zod.import([\"import b\"])'') (setErrorLocation ''User'') =
     Inr (Some \<lparr>statements = [''import b''], zd_clearedDocumentation = '' ''\<rparr>)"
  by (simp add: directive_defs example_two_directives_def)


section \<open>The directive parser\<close>

lemma regex_here_whole:
  assumes "IMPORT_STATEMENT_REGEX_here s = Some marker"
  shows "\<exists>rest tail. s = whole marker @ rest \<and> whole marker = ''@zod.'' @ tail"
proof -
  from assms have p: "prefix ''@zod.'' s"
    by (simp add: IMPORT_STATEMENT_REGEX_here_def split: if_splits)
  define r0 where "r0 = drop 5 s"
  define ty where "ty = takeWhile is_word_char r0"
  define r1 where "r1 = dropWhile is_word_char r0"
  define r2 where "r2 = drop 2 r1"
  define pl where "pl = takeWhile is_statement_char r2"
  define r3 where "r3 = dropWhile is_statement_char r2"
  from p have s: "s = ''@zod.'' @ r0"
    by (auto simp: prefix_def r0_def)
  have e0: "r0 = ty @ r1" by (simp add: ty_def r1_def)
  from assms p have q: "prefix ''(['' r1"
    by (simp add: IMPORT_STATEMENT_REGEX_here_def Let_def r0_def r1_def split: if_splits)
  then have e1: "r1 = ''(['' @ r2" by (auto simp: prefix_def r2_def)
  have e2: "r2 = pl @ r3" by (simp add: pl_def r3_def)
  from assms p q have c: "prefix ''])'' r3" and w: "whole marker = ''@zod.'' @ ty @ ''(['' @ pl @ ''])''"
    by (auto simp: IMPORT_STATEMENT_REGEX_here_def Let_def r0_def r1_def r2_def r3_def ty_def
        pl_def split: if_splits)
  from c obtain rest where e3: "r3 = ''])'' @ rest" by (auto simp: prefix_def)
  have "s = whole marker @ rest"
    by (subst s, subst e0, subst e1, subst e2, subst e3, subst w) simp
  moreover have "whole marker = ''@zod.'' @ (ty @ ''(['' @ pl @ ''])'')"
    by (subst w) simp
  ultimately show ?thesis by blast
qed

lemma match_found_in_text:
  "match_IMPORT_STATEMENT_REGEX s = Some marker \<Longrightarrow>
   String_includes s (whole marker) \<and> String_includes s ''@zod.''"
proof (induction s)
  case Nil
  then show ?case by simp
next
  case (Cons c cs)
  show ?case
  proof (cases "IMPORT_STATEMENT_REGEX_here (c # cs)")
    case None
    with Cons.prems have "match_IMPORT_STATEMENT_REGEX cs = Some marker" by simp
    with Cons.IH have "String_includes cs (whole marker) \<and> String_includes cs ''@zod.''"
      by blast
    then show ?thesis by simp
  next
    case (Some m)
    with Cons.prems have m: "m = marker" by simp
    from regex_here_whole[OF Some] m obtain rest tail where
      a: "c # cs = whole marker @ rest" and b: "whole marker = ''@zod.'' @ tail"
      by blast
    from a have "c # cs = [] @ whole marker @ rest" by simp
    then have i1: "String_includes (c # cs) (whole marker)"
      unfolding String_includes_iff by blast
    from a b have "c # cs = [] @ ''@zod.'' @ (tail @ rest)" by simp
    then have i2: "String_includes (c # cs) ''@zod.''"
      unfolding String_includes_iff by blast
    from i1 i2 show ?thesis by (rule conjI)
  qed
qed

lemma no_marker_no_match:
  assumes "\<not> String_includes s ''@zod.''"
  shows "match_IMPORT_STATEMENT_REGEX s = None"
proof (cases "match_IMPORT_STATEMENT_REGEX s")
  case None
  then show ?thesis .
next
  case (Some marker)
  from match_found_in_text[OF Some] assms show ?thesis by simp
qed

lemma match_Nil: "match_IMPORT_STATEMENT_REGEX doc = Some marker \<Longrightarrow> doc \<noteq> []"
  by auto

lemma extract_Some_match:
  assumes "extractZodDirectives (Some doc) loc = Inr (Some zd)"
  shows "\<exists>marker. match_IMPORT_STATEMENT_REGEX doc = Some marker
           \<and> zd_clearedDocumentation zd = String_replace doc (whole marker) []"
  using assms
  by (auto simp: extractZodDirectives_def Let_def split: if_splits option.splits)

lemma extract_no_marker:
  assumes "\<not> String_includes doc ''@zod.''"
  shows "extractZodDirectives (Some doc) loc = Inr None"
  using no_marker_no_match[OF assms] by (simp add: extractZodDirectives_def)

text \<open>
  Claim C6, amended. When a directive is extracted, the cleared documentation is the
  documentation without one occurrence of the matched directive text, and nothing else is
  removed. Extraction on the cleared documentation finds no directive provided the cleared
  documentation does not contain the marker prefix \<^verbatim>\<open>@zod.\<close> any more.
\<close>

theorem extraction_removes_matched_directive:
  assumes "extractZodDirectives (Some doc) loc = Inr (Some zd)"
  shows "\<exists>marker pre post.
           match_IMPORT_STATEMENT_REGEX doc = Some marker
         \<and> doc = pre @ whole marker @ post
         \<and> zd_clearedDocumentation zd = pre @ post
         \<and> (\<not> String_includes (pre @ post) ''@zod.'' \<longrightarrow>
              extractZodDirectives (Some (zd_clearedDocumentation zd)) loc = Inr None)"
proof -
  from extract_Some_match[OF assms] obtain marker where
    m: "match_IMPORT_STATEMENT_REGEX doc = Some marker"
    and c: "zd_clearedDocumentation zd = String_replace doc (whole marker) []"
    by blast
  from match_found_in_text[OF m] have "String_includes doc (whole marker)" by simp
  from String_replace_removes[OF this] obtain pre post where
    d: "doc = pre @ whole marker @ post"
    and r: "String_replace doc (whole marker) [] = pre @ post"
    by blast
  from c r have c': "zd_clearedDocumentation zd = pre @ post" by simp
  have "\<not> String_includes (pre @ post) ''@zod.'' \<longrightarrow>
          extractZodDirectives (Some (zd_clearedDocumentation zd)) loc = Inr None"
    unfolding c' using extract_no_marker by blast
  with m d c' show ?thesis by blast
qed


theorem extraction_removes_matched_directive_witness:
  "extractZodDirectives (Some example_documentation) (setErrorLocation ''User'') =
     Inr (Some \<lparr>statements = [''import { x } from 'y'' @ [CHR 0x27]],
                zd_clearedDocumentation = ''some text ''\<rparr>)
   \<and> (\<exists>marker pre post.
           match_IMPORT_STATEMENT_REGEX example_documentation = Some marker
         \<and> example_documentation = pre @ whole marker @ post
         \<and> ''some text '' = pre @ post
         \<and> (\<not> String_includes (pre @ post) ''@zod.'' \<longrightarrow>
              extractZodDirectives (Some ''some text '') (setErrorLocation ''User'') = Inr None))
   \<and> \<not> String_includes ''some text '' ''@zod.''"
proof -
  have h: "extractZodDirectives (Some example_documentation) (setErrorLocation ''User'') =
     Inr (Some \<lparr>statements = [''import { x } from 'y'' @ [CHR 0x27]],
                zd_clearedDocumentation = ''some text ''\<rparr>)"
    by (rule example_documentation_extract)
  have n: "\<not> String_includes ''some text '' ''@zod.''" by simp
  have r: "\<exists>marker pre post.
           match_IMPORT_STATEMENT_REGEX example_documentation = Some marker
         \<and> example_documentation = pre @ whole marker @ post
         \<and> ''some text '' = pre @ post
         \<and> (\<not> String_includes (pre @ post) ''@zod.'' \<longrightarrow>
              extractZodDirectives (Some ''some text '') (setErrorLocation ''User'') = Inr None)"
    using extraction_removes_matched_directive[OF h]
    by (simp only: zodDirectives.select_convs)
  show ?thesis by (rule conjI[OF h conjI[OF r n]])
qed

text \<open>
  Claim C5, amended. When the leftmost directive marker of the documentation of a model,
  the one that the match finds, has a type tag other than \<^verbatim>\<open>import\<close>, the constructor
  throws: the result is an error, no model, and the message of the error contains the name
  of the model.
\<close>

theorem directive_type_error:
  assumes "dm_documentation model = Some doc"
    and "match_IMPORT_STATEMENT_REGEX doc = Some marker"
    and "type_group marker \<noteq> Some ''import''"
  shows "\<exists>msg. ExtendedDMMFModel_new newField cfg model = Inl (Error msg)
             \<and> msg = ''[@zod generator error]: '' @ [CHR 0x27] @ render (type_group marker)
                       @ [CHR 0x27] @ '' is not a valid validator key. ''
                       @ setErrorLocation (dm_name model)
             \<and> String_includes msg (dm_name model)"
proof -
  define msg where "msg = ''[@zod generator error]: '' @ [CHR 0x27] @ render (type_group marker)
                       @ [CHR 0x27] @ '' is not a valid validator key. ''
                       @ setErrorLocation (dm_name model)"
  from assms(2) have ne: "doc \<noteq> []" by auto
  have x: "extractZodDirectives (Some doc) (setErrorLocation (dm_name model)) = Inl (Error msg)"
    using assms(2,3) ne by (simp add: extractZodDirectives_def Let_def msg_def)
  have n: "ExtendedDMMFModel_new newField cfg model = Inl (Error msg)"
    by (simp add: ExtendedDMMFModel_new_def Let_def getDocumentationContent_def assms(1) x)
  have "msg = (''[@zod generator error]: '' @ [CHR 0x27] @ render (type_group marker)
                 @ [CHR 0x27] @ '' is not a valid validator key. ''
                 @ ''[Error Location]: Model: '' @ [CHR 0x27])
              @ dm_name model @ ([CHR 0x27] @ ''.'')"
    by (simp add: msg_def setErrorLocation_def)
  then have i: "String_includes msg (dm_name model)"
    unfolding String_includes_iff by blast
  from n i show ?thesis unfolding msg_def by blast
qed


theorem directive_type_error_witness:
  "dm_documentation (example_model ''User'' example_fields (Some example_bad_documentation))
     = Some example_bad_documentation
   \<and> match_IMPORT_STATEMENT_REGEX example_bad_documentation
       = Some \<lparr>whole = ''@zod.custom([\"x\"])'', type_group = Some ''custom'',
                imports_group = Some [CHR 0x22, CHR ''x'', CHR 0x22]\<rparr>
   \<and> type_group \<lparr>whole = ''@zod.custom([\"x\"])'', type_group = Some ''custom'',
                   imports_group = Some [CHR 0x22, CHR ''x'', CHR 0x22]\<rparr> \<noteq> Some ''import''
   \<and> dm_name (example_model ''User'' example_fields (Some example_bad_documentation)) = ''User''
   \<and> (\<exists>msg. ExtendedDMMFModel_new example_newField example_config
               (example_model ''User'' example_fields (Some example_bad_documentation))
             = Inl (Error msg)
           \<and> msg = ''[@zod generator error]: '' @ [CHR 0x27]
                    @ render (type_group \<lparr>whole = ''@zod.custom([\"x\"])'',
                         type_group = Some ''custom'',
                         imports_group = Some [CHR 0x22, CHR ''x'', CHR 0x22]\<rparr>)
                    @ [CHR 0x27] @ '' is not a valid validator key. ''
                    @ setErrorLocation (dm_name (example_model ''User'' example_fields
                         (Some example_bad_documentation)))
           \<and> String_includes msg
                (dm_name (example_model ''User'' example_fields
                   (Some example_bad_documentation))))"
proof -
  have h1: "dm_documentation (example_model ''User'' example_fields (Some example_bad_documentation))
     = Some example_bad_documentation"
    by (simp add: example_model_def)
  have h2: "match_IMPORT_STATEMENT_REGEX example_bad_documentation
       = Some \<lparr>whole = ''@zod.custom([\"x\"])'', type_group = Some ''custom'',
                imports_group = Some [CHR 0x22, CHR ''x'', CHR 0x22]\<rparr>"
    by (simp add: example_bad_documentation_def IMPORT_STATEMENT_REGEX_here_def
        is_word_char_def is_statement_char_def)
  have h3: "type_group \<lparr>whole = ''@zod.custom([\"x\"])'', type_group = Some ''custom'',
                imports_group = Some [CHR 0x22, CHR ''x'', CHR 0x22]\<rparr> \<noteq> Some ''import''"
    by simp
  have n: "dm_name (example_model ''User'' example_fields (Some example_bad_documentation))
      = ''User''"
    by (simp add: example_model_def)
  note r = directive_type_error[OF h1 h2 h3, of example_newField example_config]
  show ?thesis by (rule conjI[OF h1 conjI[OF h2 conjI[OF h3 conjI[OF n r]]]])
qed

text \<open>
  Only the leftmost marker is examined: a second marker with another type tag raises no
  error and stays in the cleared documentation.
\<close>

lemma later_marker_not_examined:
  "extractZodDirectives (Some ''@zod.import([\"import a\"]) @zod.custom([\"b\"])'') loc =
     Inr (Some \<lparr>statements = [''import a''],
                zd_clearedDocumentation = '' @zod.custom([\"b\"])''\<rparr>)"
  by (simp add: directive_defs)

text \<open>
  Claim C5 covers every documentation that contains a marker whose type tag is not
  \<^verbatim>\<open>import\<close>. A documentation with an \<^verbatim>\<open>import\<close> directive followed by a marker tagged
  \<^verbatim>\<open>custom\<close> contains such a marker, and the constructor returns a model; the second marker
  stays in its cleared documentation.
\<close>

theorem later_bad_marker_counterexample:
  "String_includes example_later_bad_marker ''@zod.custom([\"b\"])''
   \<and> match_IMPORT_STATEMENT_REGEX ''@zod.custom([\"b\"])''
       = Some \<lparr>whole = ''@zod.custom([\"b\"])'', type_group = Some ''custom'',
                imports_group = Some [CHR 0x22, CHR ''b'', CHR 0x22]\<rparr>
   \<and> (case ExtendedDMMFModel_new example_newField example_config
              (example_model ''User'' example_fields (Some example_later_bad_marker)) of
        Inl e \<Rightarrow> False
      | Inr m \<Rightarrow> m_name m = ''User''
               \<and> m_clearedDocumentation m = Some '' @zod.custom([\"b\"])'')"
proof -
  have a: "String_includes example_later_bad_marker ''@zod.custom([\"b\"])''"
    by (simp add: example_later_bad_marker_def)
  have b: "match_IMPORT_STATEMENT_REGEX ''@zod.custom([\"b\"])''
       = Some \<lparr>whole = ''@zod.custom([\"b\"])'', type_group = Some ''custom'',
                imports_group = Some [CHR 0x22, CHR ''b'', CHR 0x22]\<rparr>"
    by (simp add: IMPORT_STATEMENT_REGEX_here_def is_word_char_def is_statement_char_def)
  have x: "extractZodDirectives (Some example_later_bad_marker) (setErrorLocation ''User'') =
     Inr (Some \<lparr>statements = [''import a''],
                zd_clearedDocumentation = '' @zod.custom([\"b\"])''\<rparr>)"
    unfolding example_later_bad_marker_def by (rule later_marker_not_examined)
  have c: "(case ExtendedDMMFModel_new example_newField example_config
              (example_model ''User'' example_fields (Some example_later_bad_marker)) of
        Inl e \<Rightarrow> False
      | Inr m \<Rightarrow> m_name m = ''User''
               \<and> m_clearedDocumentation m = Some '' @zod.custom([\"b\"])'')"
    by (simp add: ExtendedDMMFModel_new_def Let_def getDocumentationContent_def
        example_model_def x)
  show ?thesis by (rule conjI[OF a conjI[OF b c]])
qed

text \<open>
  The removal can also join the text around the directive into a new marker, in a
  documentation that holds a single directive.
\<close>

lemma removal_joins_marker:
  "extractZodDirectives (Some ''@zo@zod.import([\"import a\"])d.import([\"import b\"])'') loc =
     Inr (Some \<lparr>statements = [''import a''],
                zd_clearedDocumentation = ''@zod.import([\"import b\"])''\<rparr>)
   \<and> extractZodDirectives (Some ''@zod.import([\"import b\"])'') loc =
     Inr (Some \<lparr>statements = [''import b''], zd_clearedDocumentation = []\<rparr>)"
  by (simp add: directive_defs)

section \<open>The import set of a model\<close>

lemma foldl_push: "foldl (\<lambda>s x. s @ [g x]) acc xs = acc @ map g xs"
  by (induction xs arbitrary: acc) auto

lemma getAutomaticImports_closed_form:
  "getAutomaticImports cfg flds (setEnumfields flds) = spec_automatic_statements cfg flds"
  by (simp add: getAutomaticImports_def spec_automatic_statements_def Let_def foldl_push
      setEnumfields_def)

lemma distinct_count_list_one: "distinct xs \<Longrightarrow> x \<in> set xs \<Longrightarrow> count_list xs x = 1"
  by (induction xs) (auto simp: count_list_0_iff)

lemma constructed_model_imports:
  assumes "ExtendedDMMFModel_new newField cfg model = Inr m"
  shows "m_imports m =
           new_Set (directiveStatements (dm_documentation model) (setErrorLocation (dm_name model))
                    @ getAutomaticImports cfg (m_fields m) (m_enumFields m))"
  using assms
  by (auto simp: ExtendedDMMFModel_new_def Let_def getDocumentationContent_def
      directiveStatements_def split: sum.splits option.splits)

lemma model_new_total:
  assumes "extractZodDirectives (dm_documentation model) (setErrorLocation (dm_name model)) = Inr z"
  shows "\<exists>m. ExtendedDMMFModel_new newField cfg model = Inr m"
  using assms
  by (cases z) (simp_all add: ExtendedDMMFModel_new_def Let_def getDocumentationContent_def)

text \<open>
  Claim C4. The import set of a constructed model is the directive-derived statements
  followed by the automatic statements, with duplicates removed and every statement kept
  where it is first seen. The automatic statements are, in this order, the nullable-JSON
  helper, the input-JSON helper, the database-client import and one enum-schema import per
  enum field. The set has no duplicates, its members are exactly those statements, and the
  enum-schema import of every enum field occurs in it exactly once, however many enum
  fields share the type.
\<close>

theorem model_import_set:
  assumes "ExtendedDMMFModel_new newField cfg model = Inr m"
  shows "m_imports m =
           dedup_first_seen
             (directiveStatements (dm_documentation model) (setErrorLocation (dm_name model))
              @ spec_automatic_statements cfg (m_fields m))
       \<and> getAutomaticImports cfg (m_fields m) (m_enumFields m)
           = spec_automatic_statements cfg (m_fields m)
       \<and> distinct (m_imports m)
       \<and> set (m_imports m) =
           set (directiveStatements (dm_documentation model) (setErrorLocation (dm_name model)))
           \<union> set (spec_automatic_statements cfg (m_fields m))
       \<and> list_all (\<lambda>field. count_list (m_imports m) (enumSchemaImport field) = 1)
           (m_enumFields m)"
proof -
  let ?d = "directiveStatements (dm_documentation model) (setErrorLocation (dm_name model))"
  let ?a = "spec_automatic_statements cfg (m_fields m)"
  have e: "m_enumFields m = setEnumfields (m_fields m)"
    by (rule constructed_model_fields(4)[OF assms])
  have a: "getAutomaticImports cfg (m_fields m) (m_enumFields m) = ?a"
    unfolding e by (rule getAutomaticImports_closed_form)
  have i: "m_imports m = dedup_first_seen (?d @ ?a)"
    using constructed_model_imports[OF assms] by (simp add: a new_Set_dedup)
  have d: "distinct (m_imports m)"
    unfolding i by (rule dedup_first_seen_distinct)
  have s: "set (m_imports m) = set ?d \<union> set ?a"
    unfolding i by (simp add: dedup_first_seen_set)
  have c: "list_all (\<lambda>field. count_list (m_imports m) (enumSchemaImport field) = 1)
           (m_enumFields m)"
  proof -
    have "count_list (m_imports m) (enumSchemaImport field) = 1"
      if "field \<in> set (m_enumFields m)" for field
    proof -
      from that have "enumSchemaImport field \<in> set ?a"
        by (simp add: spec_automatic_statements_def e setEnumfields_def)
      then have "enumSchemaImport field \<in> set (m_imports m)"
        by (simp add: s)
      with d show ?thesis by (rule distinct_count_list_one)
    qed
    then show ?thesis by (simp add: list_all_iff)
  qed
  from i a d s c show ?thesis by blast
qed


theorem model_import_set_witness:
  "\<exists>m. ExtendedDMMFModel_new example_newField example_config example_directive_model = Inr m
     \<and> m_imports m =
         [''import { x } from 'y'' @ [CHR 0x27],
          ''import { NullableJsonValue } from \"../helpers'',
          ''import { RoleSchema } from '' @ [CHR 0x27] @ ''../enums/RoleSchema'' @ [CHR 0x27]]
     \<and> map f_type (m_enumFields m) = [''Role'', ''Role'']"
proof -
  have x: "extractZodDirectives (dm_documentation example_directive_model)
             (setErrorLocation (dm_name example_directive_model)) =
     Inr (Some \<lparr>statements = [''import { x } from 'y'' @ [CHR 0x27]],
                zd_clearedDocumentation = ''some text ''\<rparr>)"
    by (simp add: example_directive_model_def example_model_def example_documentation_extract)
  from model_new_total[OF x] obtain m where
    m: "ExtendedDMMFModel_new example_newField example_config example_directive_model = Inr m"
    by blast
  have f: "m_fields m = example_fields"
    by (simp add: constructed_model_fields(1)[OF m] getExtendedFields_def
        example_directive_model_def example_model_def example_newField_def)
  have en: "map f_type (m_enumFields m) = [''Role'', ''Role'']"
    by (simp add: constructed_model_fields(4)[OF m] f setEnumfields_def example_fields_def
        example_field_def)
  have ds: "directiveStatements (dm_documentation example_directive_model)
             (setErrorLocation (dm_name example_directive_model))
            = [''import { x } from 'y'' @ [CHR 0x27]]"
    by (simp add: directiveStatements_def x)
  have au: "spec_automatic_statements example_config example_fields =
      [''import { NullableJsonValue } from \"../helpers'',
       ''import { RoleSchema } from '' @ [CHR 0x27] @ ''../enums/RoleSchema'' @ [CHR 0x27],
       ''import { RoleSchema } from '' @ [CHR 0x27] @ ''../enums/RoleSchema'' @ [CHR 0x27]]"
    by (simp add: spec_automatic_statements_def example_fields_def example_field_def
        enumSchemaImport_def)
  from model_import_set[OF m] have
    "m_imports m = dedup_first_seen
             (directiveStatements (dm_documentation example_directive_model)
                (setErrorLocation (dm_name example_directive_model))
              @ spec_automatic_statements example_config (m_fields m))"
    by (rule conjunct1)
  then have im: "m_imports m =
         [''import { x } from 'y'' @ [CHR 0x27],
          ''import { NullableJsonValue } from \"../helpers'',
          ''import { RoleSchema } from '' @ [CHR 0x27] @ ''../enums/RoleSchema'' @ [CHR 0x27]]"
    by (simp add: f ds au dedup_first_seen_def)
  show ?thesis
    by (rule exI[of _ m]) (rule conjI[OF m conjI[OF im en]])
qed

end
